theory Spec2Isabelle
  imports Main "HOL-Library.AList" "HOL-Library.Sublist"
begin

section \<open>JavaScript values\<close>

text \<open>
  The values that cross the message boundary and that \<^verbatim>\<open>JSON.parse\<close> can give back.
  Numbers are modelled as integers with a separate \<open>JNaN\<close>; an object is an
  association list with distinct keys, read with \<open>map_of\<close> and written with
  \<open>AList.update\<close>.
\<close>

datatype jsval =
    Undefined
  | Null
  | JBool bool
  | JNum int
  | JNaN
  | JStr string
  | JArr "jsval list"
  | JObj "(string \<times> jsval) list"

text \<open>What \<^verbatim>\<open>if (!x)\<close> and \<^verbatim>\<open>a || b\<close> test.\<close>

fun truthy :: "jsval \<Rightarrow> bool" where
  "truthy Undefined = False"
| "truthy Null = False"
| "truthy (JBool b) = b"
| "truthy (JNum n) = (n \<noteq> 0)"
| "truthy JNaN = False"
| "truthy (JStr s) = (s \<noteq> [])"
| "truthy (JArr _) = True"
| "truthy (JObj _) = True"

definition js_or :: "jsval \<Rightarrow> jsval \<Rightarrow> jsval" where
  "js_or a b = (if truthy a then a else b)"

text \<open>
  \<^verbatim>\<open>data.k\<close> for one of the configuration keys: a TypeError on \<^verbatim>\<open>null\<close> and
  \<^verbatim>\<open>undefined\<close>, the stored value on an object that has the key, and
  \<^verbatim>\<open>undefined\<close> everywhere else (the keys read by the program are neither array
  indices nor \<^verbatim>\<open>length\<close>).
\<close>

fun get_prop :: "jsval \<Rightarrow> string \<Rightarrow> string + jsval" where
  "get_prop Undefined k = Inl (''Cannot read properties of undefined (reading '' @ [CHR 0x27] @ k @ [CHR 0x27] @ '')'')"
| "get_prop Null k = Inl (''Cannot read properties of null (reading '' @ [CHR 0x27] @ k @ [CHR 0x27] @ '')'')"
| "get_prop (JObj kvs) k = (case map_of kvs k of None \<Rightarrow> Inr Undefined | Some v \<Rightarrow> Inr v)"
| "get_prop _ k = Inr Undefined"

text \<open>
  \<^verbatim>\<open>config.k = v\<close> as the configuration helpers use it, always followed by
  \<^verbatim>\<open>JSON.stringify\<close>: a TypeError on \<^verbatim>\<open>null\<close> and \<^verbatim>\<open>undefined\<close>; on an object the
  key is set in place; on a primitive the assignment is dropped (the module is not in
  strict mode); on an array the named property is not serialised, so the array is what
  reaches the file.
\<close>

fun set_prop :: "jsval \<Rightarrow> string \<Rightarrow> jsval \<Rightarrow> string + jsval" where
  "set_prop Undefined k v = Inl (''Cannot set properties of undefined (setting '' @ [CHR 0x27] @ k @ [CHR 0x27] @ '')'')"
| "set_prop Null k v = Inl (''Cannot set properties of null (setting '' @ [CHR 0x27] @ k @ [CHR 0x27] @ '')'')"
| "set_prop (JObj kvs) k v = Inr (JObj (AList.update k v kvs))"
| "set_prop d k v = Inr d"

text \<open>
  \<^verbatim>\<open>JSON.parse(JSON.stringify(v, null, 2))\<close> where the first call gives a string:
  \<^verbatim>\<open>NaN\<close> is written as \<^verbatim>\<open>null\<close>, an \<^verbatim>\<open>undefined\<close> array element as \<^verbatim>\<open>null\<close>, and an
  object key whose value is \<^verbatim>\<open>undefined\<close> is left out.
\<close>

primrec json_roundtrip :: "jsval \<Rightarrow> jsval" where
  "json_roundtrip Undefined = Undefined"
| "json_roundtrip Null = Null"
| "json_roundtrip (JBool b) = JBool b"
| "json_roundtrip (JNum n) = JNum n"
| "json_roundtrip JNaN = Null"
| "json_roundtrip (JStr s) = JStr s"
| "json_roundtrip (JArr vs) =
     JArr (map (\<lambda>v. if v = Undefined then Null else v) (map json_roundtrip vs))"
| "json_roundtrip (JObj kvs) =
     JObj (filter (\<lambda>kv. snd kv \<noteq> Undefined) (map (map_prod id json_roundtrip) kvs))"

section \<open>Config store (configHelpers)\<close>

text \<open>
  The configuration file as the helpers can observe it: \<^verbatim>\<open>fs.existsSync\<close> is false
  (\<open>Absent\<close>), \<^verbatim>\<open>fs.readFileSync\<close> throws (\<open>Unreadable\<close>), \<^verbatim>\<open>JSON.parse\<close> throws
  (\<open>Corrupt\<close>), or parsing gives a value (\<open>Content\<close>).
\<close>

datatype cfg_file = Absent | Unreadable | Corrupt | Content jsval

definition DEFAULT_URL :: string where
  "DEFAULT_URL = ''https://blancpaw-gt.uk''"


text \<open>\<^verbatim>\<open>readSavedUrl\<close>: \<^verbatim>\<open>data.url || 'https://blancpaw-gt.uk'\<close> inside a try/catch.\<close>

fun readSavedUrl :: "cfg_file \<Rightarrow> jsval" where
  "readSavedUrl (Content data) =
     (case get_prop data ''url'' of
        Inl err \<Rightarrow> JStr DEFAULT_URL
      | Inr u \<Rightarrow> js_or u (JStr DEFAULT_URL))"
| "readSavedUrl _ = JStr DEFAULT_URL"

text \<open>
  \<^verbatim>\<open>saveConfig\<close>: \<^verbatim>\<open>fs.writeFileSync(configPath, JSON.stringify(config, null, 2))\<close>
  inside a try/catch. \<open>wr\<close> says whether the filesystem accepts the write; a write
  of \<^verbatim>\<open>undefined\<close> (what \<^verbatim>\<open>JSON.stringify(undefined)\<close> gives) is a TypeError. A write
  that throws is taken to leave the file as it was.
\<close>

definition saveConfig :: "bool \<Rightarrow> jsval \<Rightarrow> cfg_file \<Rightarrow> bool \<times> cfg_file" where
  "saveConfig wr config f =
     (if json_roundtrip config = Undefined then (False, f)
      else if wr then (True, Content (json_roundtrip config))
      else (False, f))"

text \<open>\<^verbatim>\<open>saveUrl\<close>: \<^verbatim>\<open>const config = { url }\<close>, then the same write.\<close>

definition saveUrl :: "bool \<Rightarrow> jsval \<Rightarrow> cfg_file \<Rightarrow> bool \<times> cfg_file" where
  "saveUrl wr url f =
     (if wr then (True, Content (json_roundtrip (JObj [(''url'', url)]))) else (False, f))"

fun readSavedConfig :: "cfg_file \<Rightarrow> jsval" where
  "readSavedConfig (Content data) = data"
| "readSavedConfig _ = JObj []"

text \<open>
  \<^verbatim>\<open>getConfiguredLiveryDirectory\<close>:
  \<^verbatim>\<open>config.liveryDirectory || config.documentsFolder || null\<close>, with no try/catch of
  its own.
\<close>

definition getConfiguredLiveryDirectory :: "cfg_file \<Rightarrow> string + jsval" where
  "getConfiguredLiveryDirectory f =
     (let config = readSavedConfig f in
      case get_prop config ''liveryDirectory'' of
        Inl err \<Rightarrow> Inl err
      | Inr a \<Rightarrow>
          if truthy a then Inr a
          else (case get_prop config ''documentsFolder'' of
                  Inl err \<Rightarrow> Inl err
                | Inr b \<Rightarrow> Inr (js_or b Null)))"

definition saveConfiguredLiveryDirectory :: "bool \<Rightarrow> jsval \<Rightarrow> cfg_file \<Rightarrow> bool \<times> cfg_file" where
  "saveConfiguredLiveryDirectory wr directory f =
     (case set_prop (readSavedConfig f) ''liveryDirectory'' directory of
        Inl err \<Rightarrow> (False, f)
      | Inr config \<Rightarrow> saveConfig wr config f)"

definition saveMinimizeToTrayPreference :: "bool \<Rightarrow> jsval \<Rightarrow> cfg_file \<Rightarrow> bool \<times> cfg_file" where
  "saveMinimizeToTrayPreference wr shouldMinimize f =
     (case set_prop (readSavedConfig f) ''minimizeToTray'' shouldMinimize of
        Inl err \<Rightarrow> (False, f)
      | Inr config \<Rightarrow> saveConfig wr config f)"

section \<open>Strings, numbers and paths\<close>

text \<open>\<^verbatim>\<open>s.includes(t)\<close>: \<open>t\<close> occurs in \<open>s\<close> as a contiguous run of characters.\<close>

fun str_includes :: "string \<Rightarrow> string \<Rightarrow> bool" where
  "str_includes [] t = (t = [])"
| "str_includes (c # s) t = (prefix t (c # s) \<or> str_includes s t)"

definition digit_char :: "nat \<Rightarrow> char" where
  "digit_char d = char_of (48 + d)"

text \<open>A non-negative integer in a template literal: its decimal digits.\<close>

function dec_nat :: "nat \<Rightarrow> string" where
  "dec_nat n = (if n < 10 then [digit_char n] else dec_nat (n div 10) @ [digit_char (n mod 10)])"
  by pat_completeness auto
termination
  by (relation "measure id") auto

declare dec_nat.simps [simp del]

fun join :: "string \<Rightarrow> string list \<Rightarrow> string" where
  "join sep [] = []"
| "join sep [x] = x"
| "join sep (x # y # ys) = x @ sep @ join sep (y # ys)"

text \<open>
  \<^verbatim>\<open>`${v}`\<close>: the string a template literal puts in for a value. Inside an array,
  \<^verbatim>\<open>null\<close> and \<^verbatim>\<open>undefined\<close> elements are written as the empty string. The digits
  of a number are those of an integer below \<^verbatim>\<open>1e21\<close>; from there on a template literal
  writes an exponent, which is not modelled.
\<close>

primrec to_string :: "jsval \<Rightarrow> string" where
  "to_string Undefined = ''undefined''"
| "to_string Null = ''null''"
| "to_string (JBool b) = (if b then ''true'' else ''false'')"
| "to_string (JNum n) = (if n < 0 then ''-'' @ dec_nat (nat (- n)) else dec_nat (nat n))"
| "to_string JNaN = ''NaN''"
| "to_string (JStr s) = s"
| "to_string (JArr vs) =
     join '','' (map (\<lambda>(v, s). if v = Undefined \<or> v = Null then [] else s)
                      (zip vs (map to_string vs)))"
| "to_string (JObj kvs) = ''[object Object]''"

text \<open>
  \<^verbatim>\<open>parseInt(s)\<close> with no radix: leading white space is skipped, one sign is read, a
  \<^verbatim>\<open>0x\<close> or \<^verbatim>\<open>0X\<close> prefix selects base 16, and the longest run of digits is the value;
  no digit at all gives \<^verbatim>\<open>NaN\<close>, here \<open>None\<close>. Only the ASCII white space characters
  are modelled, and the value is exact (no rounding to a double).
\<close>

definition is_ws :: "char \<Rightarrow> bool" where
  "is_ws c = (c \<in> set [CHR '' '', CHR 0x09, CHR 0x0A, CHR 0x0B, CHR 0x0C, CHR 0x0D])"

definition digit_val :: "char \<Rightarrow> nat" where
  "digit_val c =
     (let k = of_char c :: nat in
      if 48 \<le> k \<and> k \<le> 57 then k - 48
      else if 97 \<le> k \<and> k \<le> 122 then k - 87
      else if 65 \<le> k \<and> k \<le> 90 then k - 55
      else 36)"

definition is_digit :: "nat \<Rightarrow> char \<Rightarrow> bool" where
  "is_digit radix c = (digit_val c < radix)"

definition digits_value :: "nat \<Rightarrow> string \<Rightarrow> nat" where
  "digits_value radix ds = foldl (\<lambda>a c. a * radix + digit_val c) 0 ds"

definition parseInt :: "string \<Rightarrow> int option" where
  "parseInt s =
     (let s1 = dropWhile is_ws s;
          neg = (case s1 of [] \<Rightarrow> False | c # r \<Rightarrow> c = CHR ''-'');
          s2 = (case s1 of [] \<Rightarrow> [] | c # r \<Rightarrow> if c = CHR ''-'' \<or> c = CHR ''+'' then r else s1);
          hex = (case s2 of
                   a # b # r \<Rightarrow> a = CHR ''0'' \<and> (b = CHR ''x'' \<or> b = CHR ''X'')
                 | _ \<Rightarrow> False);
          radix = (if hex then 16 else 10);
          s3 = (if hex then drop 2 s2 else s2);
          ds = takeWhile (is_digit radix) s3
      in if ds = [] then None
         else Some ((if neg then - 1 else 1) * int (digits_value radix ds)))"

text \<open>
  \<^verbatim>\<open>path.join(a, b)\<close> on two segments that need no normalisation, with \<^verbatim>\<open>/\<close> as the
  separator.
\<close>

definition path_join :: "string \<Rightarrow> string \<Rightarrow> string" where
  "path_join a b = a @ ''/'' @ b"

section \<open>The world outside the process\<close>

text \<open>
  A response of \<^verbatim>\<open>fetch\<close>. \<open>body\<close> is \<open>None\<close> for a null body; otherwise it is the
  chunks the reader gives, in order, and the error that ends the stream early, if any.
\<close>

record response =
  status :: nat
  statusText :: string
  content_type :: "string option"
  content_length :: "string option"
  body :: "(string list \<times> string option) option"

definition response_ok :: "response \<Rightarrow> bool" where
  "response_ok r = (200 \<le> status r \<and> status r \<le> 299)"

text \<open>\<^verbatim>\<open>response.text()\<close>: the whole body, or the rejection that ended the stream.\<close>

definition response_text :: "response \<Rightarrow> string + string" where
  "response_text r =
     (case body r of
        None \<Rightarrow> Inr []
      | Some (chunks, None) \<Rightarrow> Inr (concat chunks)
      | Some (chunks, Some err) \<Rightarrow> Inl err)"

text \<open>
  What the handler reads and changes: the configuration file, the directories and the
  regular files that exist (with their contents), and a log of what it did: the URLs
  requested, the delays slept (in milliseconds), the dialogs shown and the number of
  \<^verbatim>\<open>unlinkSync\<close> calls.
\<close>

record world =
  cfg :: cfg_file
  dirs :: "string list"
  files :: "(string \<times> string) list"
  requests :: "string list"
  slept :: "nat list"
  dialogs :: nat
  unlinks :: nat

text \<open>
  What the handler cannot decide: the paths the platform gives, the answers of the user,
  of the network and of the filesystem. An \<open>Inl\<close> or a \<open>Some\<close> error is the message of
  the exception or rejection. \<open>fetch\<close> gets the number of requests made before, the URL
  and the headers; \<open>unlink_error\<close> gets the number of \<^verbatim>\<open>unlinkSync\<close> calls made before;
  \<open>cookies\<close> is \<open>None\<close> when there is no live main window. Every call to the outside
  returns or throws; the error event of a file stream that nothing listens to is kept
  apart, in the section on the errors of the file streams.
\<close>

record env =
  tempDir :: string
  homeDir :: string
  platform :: string
  cfg_write :: bool
  openDialog :: "string \<Rightarrow> string + (bool \<times> string list)"
  messageBox :: "string + nat"
  mkdir_error :: "string \<Rightarrow> string option"
  cookies :: "(jsval \<Rightarrow> string + (string \<times> string) list) option"
  fetch :: "nat \<Rightarrow> string \<Rightarrow> (string \<times> string) list \<Rightarrow> string + response"
  unzip_extract :: "string option \<Rightarrow> string \<Rightarrow> string option"
  unlink_error :: "nat \<Rightarrow> string option"

section \<open>Directory resolver\<close>

definition getAutoDetectDocumentsPath :: "env \<Rightarrow> string" where
  "getAutoDetectDocumentsPath e =
     (if platform e = ''win32'' then
        foldl path_join (homeDir e) [''Documents'', ''Assetto Corsa Competizione'']
      else if platform e = ''linux'' then
        foldl path_join (homeDir e)
          [''.steam'', ''steam'', ''steamapps'', ''compatdata'', ''805550'', ''pfx'', ''drive_c'',
           ''users'', ''steamuser'', ''Documents'', ''Assetto Corsa Competizione'']
      else
        foldl path_join (homeDir e) [''Documents'', ''Assetto Corsa Competizione''])"

text \<open>
  \<^verbatim>\<open>validateDirectory\<close>: true iff the path exists and is a directory. A value that is
  not a string is no path: \<^verbatim>\<open>fs.existsSync\<close> answers false.
\<close>

fun validateDirectory :: "world \<Rightarrow> jsval \<Rightarrow> bool" where
  "validateDirectory w (JStr p) = (p \<in> set (dirs w))"
| "validateDirectory w _ = False"

text \<open>\<^verbatim>\<open>fs.mkdirSync(p, { recursive: true })\<close>: no error when the directory exists.\<close>

definition mkdirSync :: "env \<Rightarrow> string \<Rightarrow> world \<Rightarrow> (string + unit) \<times> world" where
  "mkdirSync e p w =
     (case mkdir_error e p of
        Some err \<Rightarrow> (Inl err, w)
      | None \<Rightarrow> (Inr (), w\<lparr>dirs := List.insert p (dirs w)\<rparr>))"

datatype folder_result = Canceled | Picked string

text \<open>
  \<^verbatim>\<open>selectDocumentsFolder\<close>. Every exception inside is caught and thrown again with the
  prefix \<^verbatim>\<open>Failed to select documents folder:\<close>.
\<close>

definition selectDocumentsFolder :: "env \<Rightarrow> world \<Rightarrow> (string + folder_result) \<times> world" where
  "selectDocumentsFolder e w =
     (let autoDetectPath = getAutoDetectDocumentsPath e;
          defaultPath = (if validateDirectory w (JStr autoDetectPath) then autoDetectPath
                         else homeDir e);
          failed = (\<lambda>err. Inl (''Failed to select documents folder: '' @ err));
          w1 = w\<lparr>dialogs := dialogs w + 1\<rparr>
      in case openDialog e defaultPath of
           Inl err \<Rightarrow> (failed err, w1)
         | Inr (canceled, filePaths) \<Rightarrow>
             (case filePaths of
                [] \<Rightarrow> (Inr Canceled, w1)
              | selectedFolder # others \<Rightarrow>
                  if canceled then (Inr Canceled, w1)
                  else
                    let customsSubfolder = path_join selectedFolder ''Customs'' in
                    if validateDirectory w1 (JStr customsSubfolder)
                    then (Inr (Picked customsSubfolder), w1)
                    else
                      let w2 = w1\<lparr>dialogs := dialogs w1 + 1\<rparr> in
                      (case messageBox e of
                         Inl err \<Rightarrow> (failed err, w2)
                       | Inr answer \<Rightarrow>
                           if answer = 0 then
                             (case mkdirSync e customsSubfolder w2 of
                                (Inl err, w3) \<Rightarrow> (failed err, w3)
                              | (Inr u, w3) \<Rightarrow> (Inr (Picked customsSubfolder), w3))
                           else (Inr Canceled, w2))))"

text \<open>
  The \<^verbatim>\<open>select-documents-folder\<close> handler: after a selection it reads the whole
  record, sets \<^verbatim>\<open>config.documentsFolder\<close> and saves the record; the result of
  \<^verbatim>\<open>saveConfig\<close> is not looked at.
\<close>

definition select_documents_folder :: "env \<Rightarrow> world \<Rightarrow> (string + folder_result) \<times> world" where
  "select_documents_folder e w =
     (case selectDocumentsFolder e w of
        (Inl err, w1) \<Rightarrow> (Inl err, w1)
      | (Inr Canceled, w1) \<Rightarrow> (Inr Canceled, w1)
      | (Inr (Picked p), w1) \<Rightarrow>
          (case set_prop (readSavedConfig (cfg w1)) ''documentsFolder'' (JStr p) of
             Inl err \<Rightarrow> (Inl err, w1)
           | Inr config \<Rightarrow>
               (Inr (Picked p), w1\<lparr>cfg := snd (saveConfig (cfg_write e) config (cfg w1))\<rparr>)))"

section \<open>Download-and-extract pipeline\<close>

text \<open>
  \<^verbatim>\<open>fs.createWriteStream(destPath)\<close> creates the file, or empties the one that is
  there; \<^verbatim>\<open>writer.write(value)\<close> appends a chunk. The stream is taken to open and to
  write; a stream that fails is the subject of the section on the errors of the file
  streams.
\<close>

definition createWriteStream :: "string \<Rightarrow> world \<Rightarrow> world" where
  "createWriteStream dest w = w\<lparr>files := AList.update dest [] (files w)\<rparr>"

definition write_chunk :: "string \<Rightarrow> string \<Rightarrow> world \<Rightarrow> world" where
  "write_chunk dest chunk w =
     w\<lparr>files := AList.update dest
                    ((case map_of (files w) dest of None \<Rightarrow> [] | Some old \<Rightarrow> old) @ chunk)
                    (files w)\<rparr>"

text \<open>
  \<^verbatim>\<open>pump\<close>: read a chunk, write it, until the reader is done or a read rejects.
\<close>

fun pump :: "string \<Rightarrow> string list \<Rightarrow> string option \<Rightarrow> world \<Rightarrow> (string + unit) \<times> world" where
  "pump dest [] None w = (Inr (), w)"
| "pump dest [] (Some err) w = (Inl err, w)"
| "pump dest (chunk # rest) ending w = pump dest rest ending (write_chunk dest chunk w)"

definition AUTH_HTML :: string where
  "AUTH_HTML = ''Authentication required or access denied. Received HTML page instead of ZIP file. Please ensure you're logged into the web application.''"

definition HOMEPAGE_HTML :: string where
  "HOMEPAGE_HTML = ''Failed to download ZIP: Server returned homepage instead of livery archive. This typically means you need to be logged into the web application.''"

text \<open>The headers of \<^verbatim>\<open>fetchOptions\<close>: the cookie header only when there are cookies.\<close>

definition request_headers :: "string \<Rightarrow> (string \<times> string) list" where
  "request_headers cookieString =
     [(''User-Agent'', ''Attrition Desktop App/1.0''), (''Accept'', ''*/*'')]
     @ (if cookieString \<noteq> [] then [(''Cookie'', cookieString)] else [])"

text \<open>
  One pass through the body of the \<^verbatim>\<open>try\<close> in \<^verbatim>\<open>downloadFileWithRetry\<close>:
  \<open>Inl\<close> is the message of the error the \<^verbatim>\<open>catch\<close> receives, \<open>Inr\<close> the path
  returned.
\<close>

definition download_attempt ::
    "env \<Rightarrow> string \<Rightarrow> string \<Rightarrow> string \<Rightarrow> world \<Rightarrow> (string + string) \<times> world" where
  "download_attempt e link destPath cookieString w =
     (let headers = request_headers cookieString;
          w1 = w\<lparr>requests := requests w @ [link]\<rparr>
      in case fetch e (length (requests w)) link headers of
           Inl err \<Rightarrow> (Inl err, w1)
         | Inr r \<Rightarrow>
             if \<not> response_ok r then
               (if status r = 401 \<or> status r = 403 then
                  (Inl (''Authentication required: '' @ dec_nat (status r) @ '' '' @ statusText r
                        @ ''. Please ensure you're logged into the web application.''), w1)
                else if status r = 404 then
                  (Inl (''File not found: '' @ dec_nat (status r) @ '' '' @ statusText r), w1)
                else
                  (Inl (''Failed to download: '' @ dec_nat (status r) @ '' '' @ statusText r), w1))
             else
               let contentType = (case content_type r of None \<Rightarrow> [] | Some t \<Rightarrow> t);
                   contentLength = content_length r
               in
               if str_includes contentType ''text/html''
                  \<and> (case contentLength of
                         None \<Rightarrow> False
                       | Some l \<Rightarrow> l \<noteq> [] \<and> (case parseInt l of None \<Rightarrow> False | Some v \<Rightarrow> v > 1000))
               then
                 (case response_text r of
                    Inl err \<Rightarrow> (Inl err, w1)
                  | Inr txt \<Rightarrow>
                      if str_includes txt ''redirect'' \<or> str_includes txt ''login''
                         \<or> str_includes txt ''401'' \<or> str_includes txt ''403''
                         \<or> str_includes txt ''Unauthorized''
                      then (Inl AUTH_HTML, w1)
                      else if str_includes txt ''<html'' \<and> str_includes txt ''<title>''
                              \<and> str_includes txt ''Home''
                      then (Inl HOMEPAGE_HTML, w1)
                      else (Inl (''Failed to download ZIP: Received HTML content instead of ZIP file. Status: ''
                                 @ dec_nat (status r)), w1))
               else
                 let w2 = createWriteStream destPath w1 in
                 (case body r of
                    None \<Rightarrow> (Inl ''Cannot read properties of null (reading 'getReader')'', w2)
                  | Some (chunks, ending) \<Rightarrow>
                      (case pump destPath chunks ending w2 of
                         (Inl err, w3) \<Rightarrow> (Inl err, w3)
                       | (Inr u, w3) \<Rightarrow> (Inr destPath, w3))))"

text \<open>
  \<^verbatim>\<open>downloadFileWithRetry\<close>: the \<^verbatim>\<open>for\<close> loop from the given attempt on. The delay
  before the next attempt is \<^verbatim>\<open>Math.pow(2, attempt) * 1000\<close>. Leaving the loop
  without a return gives \<^verbatim>\<open>undefined\<close>, here \<open>Inr None\<close>.
\<close>

function downloadFileWithRetry ::
    "env \<Rightarrow> string \<Rightarrow> string \<Rightarrow> string \<Rightarrow> nat \<Rightarrow> nat \<Rightarrow> world
     \<Rightarrow> (string + string option) \<times> world" where
  "downloadFileWithRetry e link destPath cookieString maxRetries attempt w =
     (if attempt \<le> maxRetries then
        (case download_attempt e link destPath cookieString w of
           (Inr p, w1) \<Rightarrow> (Inr (Some p), w1)
         | (Inl err, w1) \<Rightarrow>
             if attempt = maxRetries then
               (Inl (''Failed to download after '' @ dec_nat maxRetries @ '' attempts: '' @ err), w1)
             else
               let delay = 2 ^ attempt * 1000 in
               downloadFileWithRetry e link destPath cookieString maxRetries (attempt + 1)
                 (w1\<lparr>slept := slept w1 @ [delay]\<rparr>))
      else (Inr None, w))"
  by pat_completeness auto
termination
  by (relation "measure (\<lambda>(e, link, destPath, cookieString, maxRetries, attempt, w).
                          Suc maxRetries - attempt)") auto

declare downloadFileWithRetry.simps [simp del]

text \<open>
  \<^verbatim>\<open>fs.unlinkSync(p)\<close>: throws what the filesystem says, or ENOENT when there is no
  such file; otherwise the file is gone.
\<close>

definition unlinkSync :: "env \<Rightarrow> string \<Rightarrow> world \<Rightarrow> (string + unit) \<times> world" where
  "unlinkSync e p w =
     (let w1 = w\<lparr>unlinks := unlinks w + 1\<rparr> in
      case unlink_error e (unlinks w) of
        Some err \<Rightarrow> (Inl err, w1)
      | None \<Rightarrow>
          if map_of (files w) p = None
          then (Inl (''ENOENT: no such file or directory, unlink '' @ p), w1)
          else (Inr (), w1\<lparr>files := AList.delete p (files w)\<rparr>))"

text \<open>The object the handler resolves with.\<close>

record ipc_result =
  success :: bool
  message :: string
  targetDirectory :: "string option"

text \<open>
  The inner \<^verbatim>\<open>try\<close>: extraction, then \<^verbatim>\<open>fs.unlinkSync(zipPath)\<close>, then the success
  object. \<open>Inl\<close> is the message of what its \<^verbatim>\<open>catch (extractionError)\<close> receives.
  The read stream on the archive is taken to open, so that the extraction stream closes
  or gives an error; a read stream that fails is the subject of the section on the errors
  of the file streams.
\<close>

definition extract_try :: "env \<Rightarrow> string \<Rightarrow> string \<Rightarrow> world \<Rightarrow> (string + ipc_result) \<times> world" where
  "extract_try e zipPath extractDir w =
     (case unzip_extract e (map_of (files w) zipPath) extractDir of
        Some err \<Rightarrow> (Inl err, w)
      | None \<Rightarrow>
          (case unlinkSync e zipPath w of
             (Inl err, w1) \<Rightarrow> (Inl err, w1)
           | (Inr u, w1) \<Rightarrow>
               (Inr \<lparr>success = True,
                     message = ''Liveries downloaded and extracted to '' @ extractDir,
                     targetDirectory = Some extractDir\<rparr>, w1)))"

text \<open>
  The inner \<^verbatim>\<open>try\<close> with its \<^verbatim>\<open>catch\<close>: the file is unlinked again, an error of that
  unlink is logged only, and the error is thrown on as an extraction failure.
\<close>

definition extract_and_cleanup ::
    "env \<Rightarrow> string \<Rightarrow> string \<Rightarrow> world \<Rightarrow> (string + ipc_result) \<times> world" where
  "extract_and_cleanup e zipPath extractDir w =
     (case extract_try e zipPath extractDir w of
        (Inr res, w1) \<Rightarrow> (Inr res, w1)
      | (Inl extractionError, w1) \<Rightarrow>
          (Inl (''Failed to extract ZIP file: '' @ extractionError),
           snd (unlinkSync e zipPath w1)))"

text \<open>Asking the user for a directory, as both branches of the handler do.\<close>

definition prompt_directory :: "env \<Rightarrow> world \<Rightarrow> (string + jsval) \<times> world" where
  "prompt_directory e w =
     (case selectDocumentsFolder e w of
        (Inl err, w1) \<Rightarrow> (Inl err, w1)
      | (Inr Canceled, w1) \<Rightarrow> (Inl ''No directory selected for liveries extraction'', w1)
      | (Inr (Picked p), w1) \<Rightarrow> (Inr (JStr p), w1))"

definition resolve_directory :: "env \<Rightarrow> world \<Rightarrow> (string + jsval) \<times> world" where
  "resolve_directory e w =
     (case getConfiguredLiveryDirectory (cfg w) of
        Inl err \<Rightarrow> (Inl err, w)
      | Inr documentsDir \<Rightarrow>
          if \<not> truthy documentsDir then prompt_directory e w
          else if \<not> validateDirectory w documentsDir then prompt_directory e w
          else (Inr documentsDir, w))"

definition zip_path :: "env \<Rightarrow> jsval \<Rightarrow> string" where
  "zip_path e eventId = path_join (tempDir e) (''liveries_event_'' @ to_string eventId @ ''.zip'')"

definition cookie_string :: "env \<Rightarrow> jsval \<Rightarrow> string" where
  "cookie_string e baseUrl =
     (case cookies e of
        None \<Rightarrow> []
      | Some get \<Rightarrow>
          (case get baseUrl of
             Inl err \<Rightarrow> []
           | Inr cs \<Rightarrow> join ''; '' (map (\<lambda>(name, val). name @ ''='' @ val) cs)))"

text \<open>
  The body of the outer \<^verbatim>\<open>try\<close> of the \<^verbatim>\<open>download-event-liveries\<close> handler, in
  two parts. The first runs from the validation of the inputs to the end of
  \<^verbatim>\<open>await downloadFileWithRetry(downloadUrl, zipPath)\<close> and gives the target
  directory; \<open>Inl\<close> is the message of the error the outer \<^verbatim>\<open>catch\<close> receives.
\<close>

definition download_stage :: "env \<Rightarrow> jsval \<Rightarrow> jsval \<Rightarrow> world \<Rightarrow> (string + string) \<times> world" where
  "download_stage e eventId baseUrl w =
     (if \<not> truthy eventId \<or> \<not> truthy baseUrl then
        (Inl ''Missing required parameters: eventId and baseUrl'', w)
      else
        let downloadUrl = to_string baseUrl @ ''/events/'' @ to_string eventId @ ''/liveries'' in
        case resolve_directory e w of
          (Inl err, w1) \<Rightarrow> (Inl err, w1)
        | (Inr documentsDir, w1) \<Rightarrow>
            let customsDir = to_string documentsDir in
            (case mkdirSync e customsDir w1 of
               (Inl err, w2) \<Rightarrow> (Inl err, w2)
             | (Inr u, w2) \<Rightarrow>
                 let zipPath = zip_path e eventId;
                     cookieString = cookie_string e baseUrl
                 in
                 (case downloadFileWithRetry e downloadUrl zipPath cookieString 3 1 w2 of
                    (Inl err, w3) \<Rightarrow> (Inl err, w3)
                  | (Inr p, w3) \<Rightarrow> (Inr customsDir, w3))))"

text \<open>The second part is the extraction with its cleanup.\<close>

definition download_try :: "env \<Rightarrow> jsval \<Rightarrow> jsval \<Rightarrow> world \<Rightarrow> (string + ipc_result) \<times> world" where
  "download_try e eventId baseUrl w =
     (case download_stage e eventId baseUrl w of
        (Inl err, w3) \<Rightarrow> (Inl err, w3)
      | (Inr customsDir, w3) \<Rightarrow> extract_and_cleanup e (zip_path e eventId) customsDir w3)"

text \<open>The handler: what the outer \<^verbatim>\<open>catch\<close> receives becomes a failure object.\<close>

definition download_event_liveries ::
    "env \<Rightarrow> jsval \<Rightarrow> jsval \<Rightarrow> world \<Rightarrow> ipc_result \<times> world" where
  "download_event_liveries e eventId baseUrl w =
     (case download_try e eventId baseUrl w of
        (Inr res, w1) \<Rightarrow> (res, w1)
      | (Inl err, w1) \<Rightarrow> (\<lparr>success = False, message = err, targetDirectory = None\<rparr>, w1))"

section \<open>Errors of the file streams\<close>

text \<open>
  The handler opens two file streams: \<^verbatim>\<open>fs.createWriteStream(destPath)\<close> in
  \<^verbatim>\<open>downloadFileWithRetry\<close> and \<^verbatim>\<open>fs.createReadStream(zipPath)\<close> before the
  extraction. Neither has an \<^verbatim>\<open>'error'\<close> listener; only the extraction stream has
  one (\<^verbatim>\<open>directory.on('error', reject)\<close>). An error of one of the two file streams,
  such as an open that fails, is therefore thrown as an uncaught exception of the
  process, outside every \<^verbatim>\<open>try\<close> of the handler.

  The functions above take both streams to work. The functions below go through the
  same steps and stop at the first stream that fails: \<open>Uncaught\<close> is the error thrown
  past the handler; what the handler does after that is not followed. \<open>Settled\<close> is
  what the functions above give.
\<close>

record streams =
  write_stream_error :: "string \<Rightarrow> string option"
  read_stream_error :: "string \<Rightarrow> string option"

datatype 'a outcome = Settled 'a | Uncaught string

text \<open>
  Whether an attempt gets to \<^verbatim>\<open>fs.createWriteStream(destPath)\<close>: \<^verbatim>\<open>fetch\<close> gives a
  response, \<^verbatim>\<open>response.ok\<close> holds, and the response is not taken for an HTML page.
\<close>

definition reaches_stream :: "env \<Rightarrow> string \<Rightarrow> string \<Rightarrow> world \<Rightarrow> bool" where
  "reaches_stream e link cookieString w =
     (case fetch e (length (requests w)) link (request_headers cookieString) of
        Inl err \<Rightarrow> False
      | Inr r \<Rightarrow>
          response_ok r
          \<and> \<not> (str_includes (case content_type r of None \<Rightarrow> [] | Some t \<Rightarrow> t) ''text/html''
                \<and> (case content_length r of
                       None \<Rightarrow> False
                     | Some l \<Rightarrow> l \<noteq> [] \<and> (case parseInt l of None \<Rightarrow> False | Some v \<Rightarrow> v > 1000))))"

definition attempt_outcome ::
    "streams \<Rightarrow> env \<Rightarrow> string \<Rightarrow> string \<Rightarrow> string \<Rightarrow> world
     \<Rightarrow> ((string + string) \<times> world) outcome" where
  "attempt_outcome s e link destPath cookieString w =
     (if reaches_stream e link cookieString w then
        (case write_stream_error s destPath of
           Some err \<Rightarrow> Uncaught err
         | None \<Rightarrow> Settled (download_attempt e link destPath cookieString w))
      else Settled (download_attempt e link destPath cookieString w))"

text \<open>The retry loop of \<^verbatim>\<open>downloadFileWithRetry\<close> over such attempts.\<close>

function retry_outcome ::
    "streams \<Rightarrow> env \<Rightarrow> string \<Rightarrow> string \<Rightarrow> string \<Rightarrow> nat \<Rightarrow> nat \<Rightarrow> world
     \<Rightarrow> ((string + string option) \<times> world) outcome" where
  "retry_outcome s e link destPath cookieString maxRetries attempt w =
     (if attempt \<le> maxRetries then
        (case attempt_outcome s e link destPath cookieString w of
           Uncaught err \<Rightarrow> Uncaught err
         | Settled (Inr p, w1) \<Rightarrow> Settled (Inr (Some p), w1)
         | Settled (Inl err, w1) \<Rightarrow>
             if attempt = maxRetries then
               Settled (Inl (''Failed to download after '' @ dec_nat maxRetries @ '' attempts: ''
                             @ err), w1)
             else
               let delay = 2 ^ attempt * 1000 in
               retry_outcome s e link destPath cookieString maxRetries (attempt + 1)
                 (w1\<lparr>slept := slept w1 @ [delay]\<rparr>))
      else Settled (Inr None, w))"
  by pat_completeness auto
termination
  by (relation "measure (\<lambda>(s, e, link, destPath, cookieString, maxRetries, attempt, w).
                          Suc maxRetries - attempt)") auto

declare retry_outcome.simps [simp del]

text \<open>The first part of the handler's \<^verbatim>\<open>try\<close>, as in \<open>download_stage\<close>.\<close>

definition stage_outcome ::
    "streams \<Rightarrow> env \<Rightarrow> jsval \<Rightarrow> jsval \<Rightarrow> world \<Rightarrow> ((string + string) \<times> world) outcome" where
  "stage_outcome s e eventId baseUrl w =
     (if \<not> truthy eventId \<or> \<not> truthy baseUrl then
        Settled (Inl ''Missing required parameters: eventId and baseUrl'', w)
      else
        let downloadUrl = to_string baseUrl @ ''/events/'' @ to_string eventId @ ''/liveries'' in
        case resolve_directory e w of
          (Inl err, w1) \<Rightarrow> Settled (Inl err, w1)
        | (Inr documentsDir, w1) \<Rightarrow>
            let customsDir = to_string documentsDir in
            (case mkdirSync e customsDir w1 of
               (Inl err, w2) \<Rightarrow> Settled (Inl err, w2)
             | (Inr u, w2) \<Rightarrow>
                 let zipPath = zip_path e eventId;
                     cookieString = cookie_string e baseUrl
                 in
                 (case retry_outcome s e downloadUrl zipPath cookieString 3 1 w2 of
                    Uncaught err \<Rightarrow> Uncaught err
                  | Settled (Inl err, w3) \<Rightarrow> Settled (Inl err, w3)
                  | Settled (Inr p, w3) \<Rightarrow> Settled (Inr customsDir, w3))))"

text \<open>
  The handler: after a download, \<^verbatim>\<open>fs.createReadStream(zipPath)\<close> is opened for the
  extraction; where its error is not listened to, the promise of the extraction is
  never settled either.
\<close>

definition handler_outcome ::
    "streams \<Rightarrow> env \<Rightarrow> jsval \<Rightarrow> jsval \<Rightarrow> world \<Rightarrow> (ipc_result \<times> world) outcome" where
  "handler_outcome s e eventId baseUrl w =
     (case stage_outcome s e eventId baseUrl w of
        Uncaught err \<Rightarrow> Uncaught err
      | Settled (Inl err, w3) \<Rightarrow>
          Settled (\<lparr>success = False, message = err, targetDirectory = None\<rparr>, w3)
      | Settled (Inr customsDir, w3) \<Rightarrow>
          (case read_stream_error s (zip_path e eventId) of
             Some err \<Rightarrow> Uncaught err
           | None \<Rightarrow>
               (case extract_and_cleanup e (zip_path e eventId) customsDir w3 of
                  (Inr res, w4) \<Rightarrow> Settled (res, w4)
                | (Inl err, w4) \<Rightarrow>
                    Settled (\<lparr>success = False, message = err, targetDirectory = None\<rparr>, w4))))"

section \<open>Application lifecycle: startup\<close>









section \<open>Scenarios\<close>

text \<open>
  A configured, existing target directory and no temporary archive; a user who cancels
  every dialog, a server that answers with a small archive, an extraction and a
  filesystem that do not fail.
\<close>

definition configured_world :: world where
  "configured_world =
     \<lparr>cfg = Content (JObj [(''liveryDirectory'', JStr ''/acc/Customs'')]),
      dirs = [''/acc/Customs''], files = [], requests = [], slept = [], dialogs = 0,
      unlinks = 0\<rparr>"

definition archive_response :: response where
  "archive_response =
     \<lparr>status = 200, statusText = ''OK'', content_type = Some ''application/zip'',
      content_length = Some ''6'', body = Some ([''PK'', ''data''], None)\<rparr>"

definition quiet_env :: env where
  "quiet_env =
     \<lparr>tempDir = ''/tmp'', homeDir = ''/home/u'', platform = ''linux'', cfg_write = True,
      openDialog = (\<lambda>p. Inr (True, [])), messageBox = Inr 1, mkdir_error = (\<lambda>p. None),
      cookies = None, fetch = (\<lambda>n link hs. Inr archive_response),
      unzip_extract = (\<lambda>c d. None), unlink_error = (\<lambda>n. None)\<rparr>"

text \<open>The endpoint that always answers HTTP 500.\<close>

definition server_error :: response where
  "server_error =
     \<lparr>status = 500, statusText = ''Internal Server Error'', content_type = None,
      content_length = None, body = None\<rparr>"

definition env_500 :: env where
  "env_500 = quiet_env\<lparr>fetch := (\<lambda>n link hs. Inr server_error)\<rparr>"

text \<open>A login page sent with status 200 and a declared length of 1234 bytes.\<close>

definition login_page :: response where
  "login_page =
     \<lparr>status = 200, statusText = ''OK'', content_type = Some ''text/html; charset=utf-8'',
      content_length = Some (dec_nat 1234),
      body = Some ([''<html><body>Please '', ''login</body></html>''], None)\<rparr>"

definition env_login :: env where
  "env_login = quiet_env\<lparr>fetch := (\<lambda>n link hs. Inr login_page)\<rparr>"

text \<open>The first \<^verbatim>\<open>unlinkSync\<close> is refused, later ones are not.\<close>

definition env_unlink_refused :: env where
  "env_unlink_refused =
     quiet_env\<lparr>unlink_error :=
       (\<lambda>n. if n = 0 then Some ''EPERM: operation not permitted, unlink'' else None)\<rparr>"

text \<open>The archive is not a ZIP file and every \<^verbatim>\<open>unlinkSync\<close> is refused.\<close>

definition env_corrupt_busy :: env where
  "env_corrupt_busy =
     quiet_env\<lparr>unzip_extract := (\<lambda>c d. Some ''invalid signature''),
               unlink_error := (\<lambda>n. Some ''EBUSY: resource busy or locked, unlink'')\<rparr>"

text \<open>The connection drops after the first chunk of the body, at every attempt.\<close>

definition truncated_response :: response where
  "truncated_response =
     \<lparr>status = 200, statusText = ''OK'', content_type = Some ''application/zip'',
      content_length = Some ''6'', body = Some ([''PK''], Some ''terminated'')\<rparr>"

definition env_truncated :: env where
  "env_truncated = quiet_env\<lparr>fetch := (\<lambda>n link hs. Inr truncated_response)\<rparr>"

text \<open>The user picks \<^verbatim>\<open>/new\<close>, which has a \<^verbatim>\<open>Customs\<close> subfolder.\<close>

definition env_pick :: env where
  "env_pick = quiet_env\<lparr>openDialog := (\<lambda>p. Inr (False, [''/new'']))\<rparr>"

definition world_pick :: world where
  "world_pick = configured_world\<lparr>dirs := [''/acc/Customs'', ''/new'', ''/new/Customs'']\<rparr>"

text \<open>
  The temporary directory has no subdirectory \<^verbatim>\<open>liveries_event_a\<close>: a file stream on
  \<^verbatim>\<open>/tmp/liveries_event_a/b.zip\<close> fails to open.
\<close>

definition ENOENT_open :: string where
  "ENOENT_open = ''ENOENT: no such file or directory, open '/tmp/liveries_event_a/b.zip'' @ [CHR 0x27]"

definition streams_no_subdirectory :: streams where
  "streams_no_subdirectory =
     \<lparr>write_stream_error =
        (\<lambda>p. if p = ''/tmp/liveries_event_a/b.zip'' then Some ENOENT_open else None),
      read_stream_error =
        (\<lambda>p. if p = ''/tmp/liveries_event_a/b.zip'' then Some ENOENT_open else None)\<rparr>"

section \<open>Facts about strings and numbers\<close>

text \<open>\<open>str_includes\<close> is the contiguous-sublist relation of the library.\<close>

lemma str_includes_sublist: "str_includes s t \<longleftrightarrow> sublist t s"
  by (induction s) (auto simp: sublist_Cons_right)

text \<open>\<open>parseInt\<close> reads back the decimal digits of a natural number.\<close>

lemma digit_val_digit_char: "d < 10 \<Longrightarrow> digit_val (digit_char d) = d"
  by (simp add: digit_val_def digit_char_def Let_def)

lemma is_digit_digit_char: "d < 10 \<Longrightarrow> is_digit 10 (digit_char d)"
  by (simp add: is_digit_def digit_val_digit_char)

lemma is_digit_10_plain:
  assumes "is_digit 10 c"
  shows "\<not> is_ws c" and "c \<noteq> CHR ''-''" and "c \<noteq> CHR ''+''"
    and "c \<noteq> CHR ''x''" and "c \<noteq> CHR ''X''"
  using assms by (auto simp: is_digit_def is_ws_def digit_val_def)

lemma dec_nat_all_digits: "\<forall>c \<in> set (dec_nat n). is_digit 10 c"
proof (induction n rule: dec_nat.induct)
  case (1 n)
  show ?case
  proof (cases "n < 10")
    case True
    then show ?thesis by (subst dec_nat.simps) (simp add: is_digit_digit_char)
  next
    case False
    with 1 show ?thesis by (subst dec_nat.simps) (simp add: is_digit_digit_char)
  qed
qed

lemma dec_nat_not_Nil: "dec_nat n \<noteq> []"
  by (subst dec_nat.simps) simp

lemma digits_value_snoc: "digits_value r (ds @ [c]) = digits_value r ds * r + digit_val c"
  by (simp add: digits_value_def)

lemma digits_value_dec_nat: "digits_value 10 (dec_nat n) = n"
proof (induction n rule: dec_nat.induct)
  case (1 n)
  show ?case
  proof (cases "n < 10")
    case True
    then show ?thesis by (subst dec_nat.simps) (simp add: digits_value_def digit_val_digit_char)
  next
    case False
    with 1 show ?thesis
      by (subst dec_nat.simps) (simp add: digits_value_snoc digit_val_digit_char)
  qed
qed

lemma parseInt_digits:
  assumes "s \<noteq> []" and "\<forall>c \<in> set s. is_digit 10 c"
  shows "parseInt s = Some (int (digits_value 10 s))"
proof -
  obtain c r where s: "s = c # r" using assms(1) by (cases s) auto
  have c: "is_digit 10 c" using assms(2) s by simp
  have ws: "dropWhile is_ws s = s" using s is_digit_10_plain(1)[OF c] by simp
  have nohex: "\<not> (case s of a # b # t \<Rightarrow> a = CHR ''0'' \<and> (b = CHR ''x'' \<or> b = CHR ''X'') | _ \<Rightarrow> False)"
  proof (cases r)
    case Nil
    then show ?thesis using s by simp
  next
    case (Cons b t)
    then have "is_digit 10 b" using assms(2) s by simp
    then show ?thesis using s Cons is_digit_10_plain(4,5) by auto
  qed
  have tw: "takeWhile (is_digit 10) s = s" using assms(2) by (simp add: takeWhile_eq_all_conv)
  show ?thesis
    unfolding parseInt_def Let_def ws
    using nohex tw assms(1) s is_digit_10_plain(2,3)[OF c]
    by simp
qed

lemma parseInt_dec_nat: "parseInt (dec_nat n) = Some (int n)"
  using parseInt_digits [OF dec_nat_not_Nil] dec_nat_all_digits digits_value_dec_nat
  by simp

section \<open>Facts about the pipeline\<close>

lemma unlinkSync_removes:
  assumes "unlink_error e (unlinks w) = None"
  shows "map_of (files (snd (unlinkSync e p w))) p = None"
  using assms by (cases "map_of (files w) p") (simp_all add: unlinkSync_def Let_def delete_conv')

text \<open>
  An attempt logs one request and sleeps nothing, whatever the network does; so when
  every attempt fails, the loop makes three requests, sleeps 2000 ms and 4000 ms between
  them, and throws the failure after 3 attempts.
\<close>

lemma dec_nat_3: "dec_nat 3 = ''3''"
  by code_simp

lemma pump_log:
  "requests (snd (pump dest chunks ending w)) = requests w"
  "slept (snd (pump dest chunks ending w)) = slept w"
  by (induction dest chunks ending w rule: pump.induct) (simp_all add: write_chunk_def)

lemma download_attempt_log:
  "requests (snd (download_attempt e link dest c w)) = requests w @ [link]"
  "slept (snd (download_attempt e link dest c w)) = slept w"
  by (simp_all add: download_attempt_def Let_def createWriteStream_def pump_log case_prod_beta
      split: sum.split option.split)

lemma retry_all_attempts_fail:
  assumes "\<And>w'. \<exists>err. fst (download_attempt e link dest c w') = Inl err"
  shows "\<exists>err w'. downloadFileWithRetry e link dest c 3 1 w
                    = (Inl (''Failed to download after 3 attempts: '' @ err), w')
                  \<and> requests w' = requests w @ [link, link, link]
                  \<and> slept w' = slept w @ [2000, 4000]"
proof -
  obtain e1 w1 where a1: "download_attempt e link dest c w = (Inl e1, w1)"
    using assms [of w] by (cases "download_attempt e link dest c w") auto
  let ?w1 = "w1\<lparr>slept := slept w1 @ [2000]\<rparr>"
  obtain e2 w2 where a2: "download_attempt e link dest c ?w1 = (Inl e2, w2)"
    using assms [of ?w1] by (cases "download_attempt e link dest c ?w1") auto
  let ?w2 = "w2\<lparr>slept := slept w2 @ [4000]\<rparr>"
  obtain e3 w3 where a3: "download_attempt e link dest c ?w2 = (Inl e3, w3)"
    using assms [of ?w2] by (cases "download_attempt e link dest c ?w2") auto
  have l1: "requests w1 = requests w @ [link]" "slept w1 = slept w"
    using download_attempt_log [of e link dest c w] a1 by simp_all
  have l2: "requests w2 = requests ?w1 @ [link]" "slept w2 = slept ?w1"
    using download_attempt_log [of e link dest c ?w1] a2 by simp_all
  have l3: "requests w3 = requests ?w2 @ [link]" "slept w3 = slept ?w2"
    using download_attempt_log [of e link dest c ?w2] a3 by simp_all
  have "downloadFileWithRetry e link dest c 3 1 w
        = (Inl (''Failed to download after 3 attempts: '' @ e3), w3)"
    apply (subst downloadFileWithRetry.simps, simp add: a1)
    apply (subst downloadFileWithRetry.simps, simp add: a2)
    apply (subst downloadFileWithRetry.simps, simp add: a3 dec_nat_3)
    done
  then show ?thesis using l1 l2 l3 by simp
qed

text \<open>The scenarios, one attempt and one call at a time.\<close>

lemma dec_nat_500: "dec_nat 500 = ''500''"
  by code_simp

lemma attempt_truncated:
  "download_attempt env_truncated link dest c w
   = (Inl ''terminated'',
      w\<lparr>requests := requests w @ [link], files := AList.update dest ''PK'' (files w)\<rparr>)"
  by (simp add: download_attempt_def env_truncated_def quiet_env_def truncated_response_def
      response_ok_def Let_def createWriteStream_def write_chunk_def update_conv')

lemma retry_truncated:
  "downloadFileWithRetry env_truncated link dest c 3 1 w
   = (Inl ''Failed to download after 3 attempts: terminated'',
      w\<lparr>requests := requests w @ [link, link, link],
        files := AList.update dest ''PK'' (files w),
        slept := slept w @ [2000, 4000]\<rparr>)"
  apply (subst downloadFileWithRetry.simps, simp add: attempt_truncated)
  apply (subst downloadFileWithRetry.simps, simp add: attempt_truncated)
  apply (subst downloadFileWithRetry.simps, simp add: attempt_truncated dec_nat_3)
  done

lemma configured_directory_resolved:
  "resolve_directory e configured_world = (Inr (JStr ''/acc/Customs''), configured_world)"
  by (simp add: resolve_directory_def getConfiguredLiveryDirectory_def configured_world_def)

lemma mkdir_configured:
  "mkdir_error e ''/acc/Customs'' = None \<Longrightarrow>
   mkdirSync e ''/acc/Customs'' configured_world = (Inr (), configured_world)"
  by (simp add: mkdirSync_def configured_world_def)

text \<open>
  What the missing cleanup of the download-failure path leaves behind: when the
  connection drops in the body at each of the three attempts, the partial archive is
  still in the temporary directory when the handler returns.
\<close>

lemma download_failure_leaves_partial_file:
  "download_event_liveries env_truncated (JStr ''42'') (JStr ''https://example.org'') configured_world
   = (\<lparr>success = False, message = ''Failed to download after 3 attempts: terminated'',
        targetDirectory = None\<rparr>,
      configured_world\<lparr>files := [(''/tmp/liveries_event_42.zip'', ''PK'')],
                        requests := replicate 3 ''https://example.org/events/42/liveries'',
                        slept := [2000, 4000]\<rparr>)"
proof -
  have m: "mkdir_error env_truncated ''/acc/Customs'' = None"
    by (simp add: env_truncated_def quiet_env_def)
  show ?thesis
    by (simp add: download_event_liveries_def download_try_def download_stage_def Let_def
        configured_directory_resolved mkdir_configured [OF m]
        retry_truncated [unfolded One_nat_def])
       (simp add: configured_world_def zip_path_def path_join_def env_truncated_def quiet_env_def
        numeral_3_eq_3)
qed

lemma attempt_server_error:
  "download_attempt env_500 link dest c w
   = (Inl ''Failed to download: 500 Internal Server Error'', w\<lparr>requests := requests w @ [link]\<rparr>)"
  by (simp add: download_attempt_def env_500_def quiet_env_def server_error_def response_ok_def
      Let_def dec_nat_500)

lemma retry_server_error:
  "downloadFileWithRetry env_500 link dest c 3 1 w
   = (Inl ''Failed to download after 3 attempts: Failed to download: 500 Internal Server Error'',
      w\<lparr>requests := requests w @ [link, link, link], slept := slept w @ [2000, 4000]\<rparr>)"
  apply (subst downloadFileWithRetry.simps, simp add: attempt_server_error)
  apply (subst downloadFileWithRetry.simps, simp add: attempt_server_error)
  apply (subst downloadFileWithRetry.simps, simp add: attempt_server_error dec_nat_3)
  done

lemma attempt_archive:
  assumes "fetch e (length (requests w)) link (request_headers c) = Inr archive_response"
  shows "download_attempt e link dest c w
         = (Inr dest, w\<lparr>requests := requests w @ [link],
                          files := AList.update dest ''PKdata'' (files w)\<rparr>)"
  using assms
  by (simp add: download_attempt_def archive_response_def response_ok_def Let_def
      createWriteStream_def write_chunk_def update_conv')

lemma retry_archive:
  assumes "fetch e (length (requests w)) link (request_headers c) = Inr archive_response"
  shows "downloadFileWithRetry e link dest c 3 1 w
         = (Inr (Some dest), w\<lparr>requests := requests w @ [link],
                                 files := AList.update dest ''PKdata'' (files w)\<rparr>)"
  by (subst downloadFileWithRetry.simps) (simp add: attempt_archive [OF assms])

lemma download_stage_archive:
  assumes "\<And>n link hs. fetch e n link hs = Inr archive_response"
    and "mkdir_error e ''/acc/Customs'' = None"
    and "tempDir e = ''/tmp''"
  shows "download_stage e (JStr ''42'') (JStr ''https://example.org'') configured_world
         = (Inr ''/acc/Customs'',
            configured_world\<lparr>requests := [''https://example.org/events/42/liveries''],
                              files := [(''/tmp/liveries_event_42.zip'', ''PKdata'')]\<rparr>)"
  by (simp add: download_stage_def Let_def configured_directory_resolved
        mkdir_configured [OF assms(2)] retry_archive [unfolded One_nat_def] assms(1))
     (simp add: configured_world_def zip_path_def path_join_def assms(3))

text \<open>
  An attempt that does not get to \<^verbatim>\<open>fs.createWriteStream\<close> leaves the files as they
  are, and one that gets there has created the file.
\<close>

lemma pump_keeps_file:
  "map_of (files w) dest \<noteq> None \<Longrightarrow> map_of (files (snd (pump dest chunks ending w))) dest \<noteq> None"
  by (induction dest chunks ending w rule: pump.induct) (simp_all add: write_chunk_def update_conv')

lemma no_stream_no_file_change:
  assumes "\<not> reaches_stream e link c w"
  shows "files (snd (download_attempt e link dest c w)) = files w"
proof (cases "fetch e (length (requests w)) link (request_headers c)")
  case (Inl err)
  then show ?thesis by (simp add: download_attempt_def Let_def)
next
  case (Inr r)
  show ?thesis
  proof (cases "response_ok r")
    case False
    then show ?thesis using Inr by (simp add: download_attempt_def Let_def)
  next
    case True
    then have "str_includes (case content_type r of None \<Rightarrow> [] | Some t \<Rightarrow> t) ''text/html''
               \<and> (case content_length r of
                      None \<Rightarrow> False
                    | Some l \<Rightarrow> l \<noteq> [] \<and> (case parseInt l of None \<Rightarrow> False | Some v \<Rightarrow> v > 1000))"
      using assms Inr by (simp add: reaches_stream_def)
    then show ?thesis
      using Inr True by (simp add: download_attempt_def Let_def split: sum.split)
  qed
qed

lemma stream_creates_file:
  assumes "reaches_stream e link c w"
  shows "map_of (files (snd (download_attempt e link dest c w))) dest \<noteq> None"
proof -
  let ?w2 = "createWriteStream dest (w\<lparr>requests := requests w @ [link]\<rparr>)"
  obtain r where r: "fetch e (length (requests w)) link (request_headers c) = Inr r"
    using assms by (cases "fetch e (length (requests w)) link (request_headers c)")
      (simp_all add: reaches_stream_def)
  have ok: "response_ok r"
    and html: "\<not> (str_includes (case content_type r of None \<Rightarrow> [] | Some t \<Rightarrow> t) ''text/html''
               \<and> (case content_length r of
                      None \<Rightarrow> False
                    | Some l \<Rightarrow> l \<noteq> [] \<and> (case parseInt l of None \<Rightarrow> False | Some v \<Rightarrow> v > 1000)))"
    using assms r by (simp_all add: reaches_stream_def)
  have created: "map_of (files ?w2) dest \<noteq> None"
    by (simp add: createWriteStream_def update_conv')
  have branch: "download_attempt e link dest c w
        = (case body r of
             None \<Rightarrow> (Inl ''Cannot read properties of null (reading 'getReader')'', ?w2)
           | Some (chunks, ending) \<Rightarrow>
               (case pump dest chunks ending ?w2 of
                  (Inl err, w3) \<Rightarrow> (Inl err, w3)
                | (Inr u, w3) \<Rightarrow> (Inr dest, w3)))"
    using html by (simp add: download_attempt_def Let_def r ok cong: conj_cong)
  show ?thesis
  proof (cases "body r")
    case None
    then show ?thesis using created by (simp add: branch)
  next
    case (Some b)
    obtain chunks ending where b: "b = (chunks, ending)" by (cases b) auto
    show ?thesis
      using pump_keeps_file [OF created, of chunks ending] Some b
      by (simp add: branch case_prod_beta split: sum.split)
  qed
qed

text \<open>Where no file stream fails, the outcome is what the handler above gives.\<close>

lemma retry_outcome_no_error:
  "write_stream_error s destPath = None \<Longrightarrow>
   retry_outcome s e link destPath c maxRetries attempt w
   = Settled (downloadFileWithRetry e link destPath c maxRetries attempt w)"
proof (induction e link destPath c maxRetries attempt w rule: downloadFileWithRetry.induct)
  case (1 e link destPath c maxRetries attempt w)
  have a: "attempt_outcome s e link destPath c w = Settled (download_attempt e link destPath c w)"
    using "1.prems" by (simp add: attempt_outcome_def)
  show ?case
  proof (cases "attempt \<le> maxRetries")
    case False
    then show ?thesis
      by (subst retry_outcome.simps, subst downloadFileWithRetry.simps) simp
  next
    case True
    obtain r w1 where d: "download_attempt e link destPath c w = (r, w1)"
      by (cases "download_attempt e link destPath c w") auto
    show ?thesis
    proof (cases r)
      case (Inr p)
      then show ?thesis
        using True a d by (subst retry_outcome.simps, subst downloadFileWithRetry.simps) simp
    next
      case (Inl err)
      show ?thesis
      proof (cases "attempt = maxRetries")
        case True
        then show ?thesis
          using a d Inl by (subst retry_outcome.simps, subst downloadFileWithRetry.simps) simp
      next
        case False
        have d': "(Inl err, w1) = download_attempt e link destPath c w"
          using d Inl by simp
        show ?thesis
          using True False a d Inl "1.IH" [OF True d' refl False refl "1.prems"]
          by (subst retry_outcome.simps, subst downloadFileWithRetry.simps) (simp add: Let_def)
      qed
    qed
  qed
qed

lemma handler_outcome_no_error:
  assumes "\<And>p. write_stream_error s p = None" and "\<And>p. read_stream_error s p = None"
  shows "handler_outcome s e eventId baseUrl w
         = Settled (download_event_liveries e eventId baseUrl w)"
proof -
  have st: "stage_outcome s e eventId baseUrl w = Settled (download_stage e eventId baseUrl w)"
    by (simp add: stage_outcome_def download_stage_def Let_def retry_outcome_no_error assms(1)
        split: prod.splits sum.splits)
  show ?thesis
    by (simp add: handler_outcome_def st download_event_liveries_def download_try_def assms(2)
        split: prod.splits sum.splits)
qed

section \<open>The claims\<close>

subsection \<open>C1: the temporary archive after the handler returns\<close>

text \<open>
  C1, as stated, fails: the archive is downloaded, the extraction fails, and the
  best-effort \<^verbatim>\<open>unlinkSync\<close> of the \<^verbatim>\<open>catch\<close> is refused by the filesystem. The
  handler returns the extraction failure and \<^verbatim>\<open>/tmp/liveries_event_42.zip\<close> still
  exists, with the downloaded bytes in it.
\<close>

theorem temp_archive_left_counterexample:
  "download_event_liveries env_corrupt_busy (JStr ''42'') (JStr ''https://example.org'')
     configured_world
   = (\<lparr>success = False, message = ''Failed to extract ZIP file: invalid signature'',
        targetDirectory = None\<rparr>,
      configured_world\<lparr>requests := [''https://example.org/events/42/liveries''],
                        files := [(''/tmp/liveries_event_42.zip'', ''PKdata'')],
                        unlinks := 1\<rparr>)"
proof -
  have st: "download_stage env_corrupt_busy (JStr ''42'') (JStr ''https://example.org'')
              configured_world
            = (Inr ''/acc/Customs'',
               configured_world\<lparr>requests := [''https://example.org/events/42/liveries''],
                                 files := [(''/tmp/liveries_event_42.zip'', ''PKdata'')]\<rparr>)"
    by (rule download_stage_archive) (simp_all add: env_corrupt_busy_def quiet_env_def)
  show ?thesis
    unfolding download_event_liveries_def download_try_def st
    by (simp add: extract_and_cleanup_def extract_try_def unlinkSync_def Let_def zip_path_def
        path_join_def env_corrupt_busy_def quiet_env_def configured_world_def)
qed

text \<open>
  C1, amended: whenever the download stage succeeds, so that the extraction is
  attempted, and the filesystem refuses no \<^verbatim>\<open>unlinkSync\<close>, the temporary archive
  \<^verbatim>\<open>liveries_event_<eventId>.zip\<close> in the temporary directory does not exist when the
  handler returns, whether the extraction succeeded or failed.
\<close>

theorem temp_archive_removed:
  assumes "fst (download_stage e eventId baseUrl w) = Inr dir"
    and "\<forall>n. unlink_error e n = None"
  shows "map_of (files (snd (download_event_liveries e eventId baseUrl w))) (zip_path e eventId)
         = None"
proof -
  obtain w3 where st: "download_stage e eventId baseUrl w = (Inr dir, w3)"
    using assms(1) by (cases "download_stage e eventId baseUrl w") auto
  let ?z = "zip_path e eventId"
  have fin: "snd (download_event_liveries e eventId baseUrl w)
             = snd (extract_and_cleanup e ?z dir w3)"
    by (simp add: download_event_liveries_def download_try_def st split: prod.splits sum.splits)
  have "map_of (files (snd (extract_and_cleanup e ?z dir w3))) ?z = None"
  proof (cases "unzip_extract e (map_of (files w3) ?z) dir")
    case (Some err)
    then show ?thesis
      using unlinkSync_removes [of e w3 ?z] assms(2)
      by (simp add: extract_and_cleanup_def extract_try_def)
  next
    case None
    obtain r w4 where u: "unlinkSync e ?z w3 = (r, w4)"
      by (cases "unlinkSync e ?z w3") auto
    show ?thesis
    proof (cases r)
      case (Inl err)
      then show ?thesis
        using None u unlinkSync_removes [of e w4 ?z] assms(2)
        by (simp add: extract_and_cleanup_def extract_try_def)
    next
      case (Inr v)
      then show ?thesis
        using None u unlinkSync_removes [of e w3 ?z] assms(2)
        by (simp add: extract_and_cleanup_def extract_try_def)
    qed
  qed
  then show ?thesis by (simp add: fin)
qed

text \<open>
  Witness for C1 amended: a configured directory, a server that sends the archive, an
  extraction and an unlink that succeed; the archive is gone at the end.
\<close>

theorem temp_archive_removed_witness:
  "fst (download_stage quiet_env (JStr ''42'') (JStr ''https://example.org'') configured_world)
     = Inr ''/acc/Customs''
   \<and> (\<forall>n. unlink_error quiet_env n = None)
   \<and> map_of (files (snd (download_event_liveries quiet_env (JStr ''42'')
                             (JStr ''https://example.org'') configured_world)))
        (zip_path quiet_env (JStr ''42'')) = None"
proof -
  have "download_stage quiet_env (JStr ''42'') (JStr ''https://example.org'') configured_world
        = (Inr ''/acc/Customs'',
           configured_world\<lparr>requests := [''https://example.org/events/42/liveries''],
                             files := [(''/tmp/liveries_event_42.zip'', ''PKdata'')]\<rparr>)"
    by (rule download_stage_archive) (simp_all add: quiet_env_def)
  then have h1: "fst (download_stage quiet_env (JStr ''42'') (JStr ''https://example.org'')
                        configured_world) = Inr ''/acc/Customs''"
    by simp
  have h2: "\<forall>n. unlink_error quiet_env n = None"
    by (simp add: quiet_env_def)
  show ?thesis
    using temp_archive_removed [OF h1 h2] h1 h2 by simp
qed

subsection \<open>C2: the handler always gives a result object\<close>

text \<open>
  C2 fails on the code: with the event identifier \<^verbatim>\<open>a/b\<close> the temporary archive is
  \<^verbatim>\<open>/tmp/liveries_event_a/b.zip\<close>, in a directory that nothing creates. The download
  gets to \<^verbatim>\<open>fs.createWriteStream\<close>, the stream fails to open, and its error, which
  nothing listens to, is thrown past the handler's \<^verbatim>\<open>try\<close>: the handler gives no
  result object.
\<close>

theorem stream_error_escapes_handler:
  "zip_path quiet_env (JStr ''a/b'') = ''/tmp/liveries_event_a/b.zip''
   \<and> handler_outcome streams_no_subdirectory quiet_env (JStr ''a/b'') (JStr ''https://example.org'')
       configured_world
     = Uncaught ENOENT_open"
proof -
  have z: "zip_path quiet_env (JStr ''a/b'') = ''/tmp/liveries_event_a/b.zip''"
    by (simp add: zip_path_def path_join_def quiet_env_def)
  have m: "mkdir_error quiet_env ''/acc/Customs'' = None"
    by (simp add: quiet_env_def)
  have r: "reaches_stream quiet_env link c w" for link c w
    by (simp add: reaches_stream_def quiet_env_def archive_response_def response_ok_def)
  have a: "attempt_outcome streams_no_subdirectory quiet_env link ''/tmp/liveries_event_a/b.zip'' c w
           = Uncaught ENOENT_open" for link c w
    by (simp add: attempt_outcome_def r streams_no_subdirectory_def)
  have l: "retry_outcome streams_no_subdirectory quiet_env link ''/tmp/liveries_event_a/b.zip'' c
             3 (Suc 0) w = Uncaught ENOENT_open" for link c w
    by (subst retry_outcome.simps) (simp add: a)
  have "handler_outcome streams_no_subdirectory quiet_env (JStr ''a/b'')
          (JStr ''https://example.org'') configured_world = Uncaught ENOENT_open"
    by (simp add: handler_outcome_def stage_outcome_def Let_def configured_directory_resolved
        mkdir_configured [OF m] z l)
  then show ?thesis using z by simp
qed

subsection \<open>C3: saving the URL and the other fields\<close>

text \<open>
  C3 fails on the code: after \<^verbatim>\<open>saveConfig({liveryDirectory, minimizeToTray})\<close>,
  \<^verbatim>\<open>saveUrl(u)\<close> writes the record \<^verbatim>\<open>{url: u}\<close> and nothing else, so
  \<^verbatim>\<open>readSavedConfig()\<close> has lost both other fields.
\<close>

theorem saveUrl_drops_fields:
  "readSavedConfig
     (snd (saveUrl True (JStr ''https://example.org'')
        (snd (saveConfig True
                (JObj [(''liveryDirectory'', JStr ''/acc/Customs''),
                       (''minimizeToTray'', JBool True)]) Absent))))
   = JObj [(''url'', JStr ''https://example.org'')]"
  by (simp add: saveUrl_def saveConfig_def)

text \<open>
  The sibling helper does the read-modify-write that \<^verbatim>\<open>saveUrl\<close> misses: the URL and
  the directory are still there after \<^verbatim>\<open>saveMinimizeToTrayPreference(false)\<close>.
\<close>

lemma saveMinimizeToTrayPreference_keeps_fields:
  "saveMinimizeToTrayPreference True (JBool False)
     (Content (JObj [(''url'', JStr ''https://example.org''),
                     (''liveryDirectory'', JStr ''/acc/Customs'')]))
   = (True, Content (JObj [(''url'', JStr ''https://example.org''),
                           (''liveryDirectory'', JStr ''/acc/Customs''),
                           (''minimizeToTray'', JBool False)]))"
  by (simp add: saveMinimizeToTrayPreference_def saveConfig_def)

text \<open>
  In general: on a stored record that is an object, \<^verbatim>\<open>saveMinimizeToTrayPreference\<close>
  sets its field and every other field reads as before.
\<close>

lemma map_of_roundtrip_update:
  assumes "k \<noteq> k'"
  shows "map_of (filter (\<lambda>kv. snd kv \<noteq> Undefined)
                  (map (map_prod id json_roundtrip) (AList.update k' v kvs))) k
         = map_of (filter (\<lambda>kv. snd kv \<noteq> Undefined)
                  (map (map_prod id json_roundtrip) kvs)) k"
  using assms by (induction kvs) auto

lemma map_of_roundtrip_update_same:
  assumes "json_roundtrip v \<noteq> Undefined"
  shows "map_of (filter (\<lambda>kv. snd kv \<noteq> Undefined)
                  (map (map_prod id json_roundtrip) (AList.update k v kvs))) k
         = Some (json_roundtrip v)"
  using assms by (induction kvs) auto

lemma saveMinimizeToTrayPreference_preserves:
  assumes "json_roundtrip (JObj kvs) = JObj kvs" and "k \<noteq> ''minimizeToTray''"
  shows "get_prop (readSavedConfig
            (snd (saveMinimizeToTrayPreference True (JBool b) (Content (JObj kvs))))) k
         = get_prop (JObj kvs) k"
    and "get_prop (readSavedConfig
            (snd (saveMinimizeToTrayPreference True (JBool b) (Content (JObj kvs)))))
            ''minimizeToTray'' = Inr (JBool b)"
proof -
  let ?P = "\<lambda>kv. snd kv \<noteq> Undefined"
  let ?m = "map (map_prod id json_roundtrip)"
  have kvs: "filter ?P (?m kvs) = kvs" using assms(1) by simp
  have saved: "readSavedConfig
            (snd (saveMinimizeToTrayPreference True (JBool b) (Content (JObj kvs))))
        = JObj (filter ?P (?m (AList.update ''minimizeToTray'' (JBool b) kvs)))"
    by (simp add: saveMinimizeToTrayPreference_def saveConfig_def)
  have "map_of (filter ?P (?m (AList.update ''minimizeToTray'' (JBool b) kvs))) k = map_of kvs k"
    using map_of_roundtrip_update [OF assms(2), of "JBool b" kvs] kvs by simp
  then show "get_prop (readSavedConfig
            (snd (saveMinimizeToTrayPreference True (JBool b) (Content (JObj kvs))))) k
         = get_prop (JObj kvs) k"
    by (simp only: saved get_prop.simps)
  have "map_of (filter ?P (?m (AList.update ''minimizeToTray'' (JBool b) kvs))) ''minimizeToTray''
        = Some (JBool b)"
    using map_of_roundtrip_update_same [of "JBool b" "''minimizeToTray''" kvs] by simp
  then show "get_prop (readSavedConfig
            (snd (saveMinimizeToTrayPreference True (JBool b) (Content (JObj kvs)))))
            ''minimizeToTray'' = Inr (JBool b)"
    by (simp only: saved get_prop.simps option.case)
qed

subsection \<open>C4: the retry loop against an endpoint that always fails\<close>

text \<open>
  C4 fails on the code in its delays: against the endpoint that always answers
  HTTP 500 the loop makes three requests and ends with the failure after 3 attempts,
  but it sleeps 2000 ms before the second attempt and 4000 ms before the third, not
  1 s and 2 s.
\<close>

theorem retry_always_500:
  "downloadFileWithRetry env_500 ''https://example.org/events/42/liveries''
     ''/tmp/liveries_event_42.zip'' [] 3 1 configured_world
   = (Inl ''Failed to download after 3 attempts: Failed to download: 500 Internal Server Error'',
      configured_world\<lparr>requests := replicate 3 ''https://example.org/events/42/liveries'',
                        slept := [2000, 4000]\<rparr>)"
  apply (subst downloadFileWithRetry.simps, simp add: attempt_server_error)
  apply (subst downloadFileWithRetry.simps, simp add: attempt_server_error)
  apply (subst downloadFileWithRetry.simps, simp add: attempt_server_error dec_nat_3)
  apply (simp add: configured_world_def numeral_3_eq_3)
  done

subsection \<open>C5: an HTML page in place of the archive\<close>

text \<open>
  C5: a 2xx response whose content type includes \<^verbatim>\<open>text/html\<close>, whose declared
  content length is a number above 1000 and whose body text contains one of the markers
  \<^verbatim>\<open>redirect\<close>, \<^verbatim>\<open>login\<close>, \<^verbatim>\<open>401\<close>, \<^verbatim>\<open>403\<close>, \<^verbatim>\<open>Unauthorized\<close> makes the attempt
  fail with the message that says authentication is required; nothing is written, the
  files are what they were before the attempt.
\<close>

theorem html_with_marker_is_auth_failure:
  assumes "fetch e (length (requests w)) link (request_headers cookieString) = Inr r"
    and "response_ok r"
    and "content_type r = Some ct" and "str_includes ct ''text/html''"
    and "content_length r = Some (dec_nat n)" and "1000 < n"
    and "body r = Some (chunks, None)"
    and "marker \<in> {''redirect'', ''login'', ''401'', ''403'', ''Unauthorized''}"
    and "str_includes (concat chunks) marker"
  shows "download_attempt e link destPath cookieString w
         = (Inl AUTH_HTML, w\<lparr>requests := requests w @ [link]\<rparr>)
         \<and> files (snd (download_attempt e link destPath cookieString w)) = files w
         \<and> str_includes AUTH_HTML ''Authentication required''"
proof -
  have len: "dec_nat n \<noteq> [] \<and> (case parseInt (dec_nat n) of None \<Rightarrow> False | Some v \<Rightarrow> v > 1000)"
    using assms(6) by (simp add: parseInt_dec_nat dec_nat_not_Nil)
  have body_text: "response_text r = Inr (concat chunks)"
    by (simp add: response_text_def assms(7))
  have mk: "str_includes (concat chunks) ''redirect'' \<or> str_includes (concat chunks) ''login''
            \<or> str_includes (concat chunks) ''401'' \<or> str_includes (concat chunks) ''403''
            \<or> str_includes (concat chunks) ''Unauthorized''"
    using assms(8,9) by auto
  have res: "download_attempt e link destPath cookieString w
             = (Inl AUTH_HTML, w\<lparr>requests := requests w @ [link]\<rparr>)"
    using mk by (simp add: download_attempt_def Let_def assms(1-5) len body_text)
  have msg: "str_includes AUTH_HTML ''Authentication required''"
    by (simp add: AUTH_HTML_def)
  show ?thesis using res msg by simp
qed

text \<open>
  Witness for C5: the login page of 1234 declared bytes, sent with status 200 as
  \<^verbatim>\<open>text/html; charset=utf-8\<close>.
\<close>

theorem html_with_marker_is_auth_failure_witness:
  "fetch env_login (length (requests configured_world)) ''https://example.org/events/42/liveries''
     (request_headers []) = Inr login_page
   \<and> response_ok login_page
   \<and> content_type login_page = Some ''text/html; charset=utf-8''
   \<and> str_includes ''text/html; charset=utf-8'' ''text/html''
   \<and> content_length login_page = Some (dec_nat 1234) \<and> (1000::nat) < 1234
   \<and> body login_page = Some ([''<html><body>Please '', ''login</body></html>''], None)
   \<and> str_includes (concat [''<html><body>Please '', ''login</body></html>'']) ''login''
   \<and> download_attempt env_login ''https://example.org/events/42/liveries''
         ''/tmp/liveries_event_42.zip'' [] configured_world
       = (Inl AUTH_HTML,
          configured_world\<lparr>requests := requests configured_world
                                        @ [''https://example.org/events/42/liveries'']\<rparr>)
   \<and> files (snd (download_attempt env_login ''https://example.org/events/42/liveries''
                    ''/tmp/liveries_event_42.zip'' [] configured_world))
       = files configured_world"
proof -
  have h1: "fetch env_login (length (requests configured_world))
              ''https://example.org/events/42/liveries'' (request_headers []) = Inr login_page"
    by (simp add: env_login_def quiet_env_def)
  have h2: "response_ok login_page"
    by (simp add: response_ok_def login_page_def)
  have h3: "content_type login_page = Some ''text/html; charset=utf-8''"
    by (simp add: login_page_def)
  have h4: "str_includes ''text/html; charset=utf-8'' ''text/html''"
    by simp
  have h5: "content_length login_page = Some (dec_nat 1234)"
    by (simp add: login_page_def)
  have h6: "(1000::nat) < 1234"
    by simp
  have h7: "body login_page = Some ([''<html><body>Please '', ''login</body></html>''], None)"
    by (simp add: login_page_def)
  have h8: "''login'' \<in> {''redirect'', ''login'', ''401'', ''403'', ''Unauthorized''}"
    by simp
  have h9: "str_includes (concat [''<html><body>Please '', ''login</body></html>'']) ''login''"
    by simp
  show ?thesis
    using html_with_marker_is_auth_failure [OF h1 h2 h3 h4 h5 h6 h7 h8 h9,
            of "''/tmp/liveries_event_42.zip''"]
          h1 h2 h3 h4 h5 h6 h7 h9
    by simp
qed

subsection \<open>C6: the window created at startup\<close>



subsection \<open>C7: a refused deletion after a successful extraction\<close>

text \<open>
  C7 fails on the code: the archive is downloaded and extracted, the
  \<^verbatim>\<open>unlinkSync\<close> that follows inside the same \<^verbatim>\<open>try\<close> is refused, and the handler
  answers with a failure that calls it an extraction failure.
\<close>

theorem refused_unlink_flips_success:
  "download_event_liveries env_unlink_refused (JStr ''42'') (JStr ''https://example.org'')
     configured_world
   = (\<lparr>success = False,
        message = ''Failed to extract ZIP file: EPERM: operation not permitted, unlink'',
        targetDirectory = None\<rparr>,
      configured_world\<lparr>requests := [''https://example.org/events/42/liveries''],
                        unlinks := 2\<rparr>)"
proof -
  have st: "download_stage env_unlink_refused (JStr ''42'') (JStr ''https://example.org'')
              configured_world
            = (Inr ''/acc/Customs'',
               configured_world\<lparr>requests := [''https://example.org/events/42/liveries''],
                                 files := [(''/tmp/liveries_event_42.zip'', ''PKdata'')]\<rparr>)"
    by (rule download_stage_archive) (simp_all add: env_unlink_refused_def quiet_env_def)
  show ?thesis
    unfolding download_event_liveries_def download_try_def st
    by (simp add: extract_and_cleanup_def extract_try_def unlinkSync_def Let_def zip_path_def
        path_join_def env_unlink_refused_def quiet_env_def configured_world_def)
qed

subsection \<open>C8: the key under which a selected directory is saved\<close>

text \<open>
  C8 fails on the code: the \<^verbatim>\<open>select-documents-folder\<close> handler saves the selection
  under \<^verbatim>\<open>documentsFolder\<close>. With no file before, the record has no
  \<^verbatim>\<open>liveryDirectory\<close> at all; with a \<^verbatim>\<open>liveryDirectory\<close> already stored, that one
  stays and is what \<^verbatim>\<open>getConfiguredLiveryDirectory\<close> still gives.
\<close>

theorem selection_saved_under_documentsFolder:
  "cfg (snd (select_documents_folder env_pick (world_pick\<lparr>cfg := Absent\<rparr>)))
     = Content (JObj [(''documentsFolder'', JStr ''/new/Customs'')])
   \<and> cfg (snd (select_documents_folder env_pick world_pick))
     = Content (JObj [(''liveryDirectory'', JStr ''/acc/Customs''),
                      (''documentsFolder'', JStr ''/new/Customs'')])
   \<and> getConfiguredLiveryDirectory (cfg (snd (select_documents_folder env_pick world_pick)))
     = Inr (JStr ''/acc/Customs'')"
  by (simp add: select_documents_folder_def selectDocumentsFolder_def Let_def env_pick_def
      quiet_env_def world_pick_def configured_world_def path_join_def saveConfig_def
      getConfiguredLiveryDirectory_def getAutoDetectDocumentsPath_def)

text \<open>The sibling helper writes the canonical key.\<close>

lemma saveConfiguredLiveryDirectory_key:
  "saveConfiguredLiveryDirectory True (JStr ''/new/Customs'') Absent
   = (True, Content (JObj [(''liveryDirectory'', JStr ''/new/Customs'')]))"
  by (simp add: saveConfiguredLiveryDirectory_def saveConfig_def)

subsection \<open>C9: reading the saved URL\<close>

text \<open>
  C9, as stated, fails twice: a record whose \<^verbatim>\<open>serverUrl\<close> field is present gives the
  default URL, because the field that is read is \<^verbatim>\<open>url\<close>; and a record whose
  \<^verbatim>\<open>url\<close> field is present and empty gives the default URL, not the field.
\<close>

theorem readSavedUrl_counterexample:
  "readSavedUrl (Content (JObj [(''serverUrl'', JStr ''https://example.org'')]))
     = JStr ''https://blancpaw-gt.uk''
   \<and> readSavedUrl (Content (JObj [(''url'', JStr '''')])) = JStr ''https://blancpaw-gt.uk''"
  by (simp add: js_or_def DEFAULT_URL_def)

text \<open>
  C9, amended: \<^verbatim>\<open>readSavedUrl\<close> gives the \<^verbatim>\<open>url\<close> field of the parsed record when
  that field is present and truthy, and the built-in default URL in every other case:
  the field is absent or falsy, the parsed value is not an object, or the file is
  missing, unreadable or not JSON. It always gives a value.
\<close>

theorem readSavedUrl_url_or_default:
  "(f = Content (JObj kvs) \<and> map_of kvs ''url'' = Some u \<and> truthy u \<longrightarrow> readSavedUrl f = u)
   \<and> ((\<forall>kvs' u'. f = Content (JObj kvs') \<and> map_of kvs' ''url'' = Some u' \<longrightarrow> \<not> truthy u')
        \<longrightarrow> readSavedUrl f = JStr DEFAULT_URL)"
proof (intro conjI impI)
  assume "f = Content (JObj kvs) \<and> map_of kvs ''url'' = Some u \<and> truthy u"
  then show "readSavedUrl f = u" by (simp add: js_or_def)
next
  assume a: "\<forall>kvs' u'. f = Content (JObj kvs') \<and> map_of kvs' ''url'' = Some u' \<longrightarrow> \<not> truthy u'"
  show "readSavedUrl f = JStr DEFAULT_URL"
  proof (cases f)
    case (Content data)
    show ?thesis
    proof (cases data)
      case (JObj kvs')
      then show ?thesis
        using a Content by (cases "map_of kvs' ''url''") (auto simp: js_or_def)
    qed (simp_all add: Content js_or_def)
  qed simp_all
qed

text \<open>
  Witness for C9 amended: a saved URL is given back; an unreadable file and an empty
  \<^verbatim>\<open>url\<close> give the default.
\<close>

theorem readSavedUrl_url_or_default_witness:
  "readSavedUrl (Content (JObj [(''url'', JStr ''https://example.org'')]))
     = JStr ''https://example.org''
   \<and> readSavedUrl Unreadable = JStr DEFAULT_URL
   \<and> readSavedUrl (Content (JObj [(''url'', JStr '''')])) = JStr DEFAULT_URL"
  using readSavedUrl_url_or_default [of "Content (JObj [(''url'', JStr ''https://example.org'')])"
          "[(''url'', JStr ''https://example.org'')]" "JStr ''https://example.org''"]
        readSavedUrl_url_or_default [of Unreadable]
        readSavedUrl_url_or_default [of "Content (JObj [(''url'', JStr '''')])"]
  by auto

subsection \<open>C10: missing parameters\<close>

text \<open>
  C10: when \<^verbatim>\<open>eventId\<close> or \<^verbatim>\<open>baseUrl\<close> is falsy, the handler answers with the
  failure \<^verbatim>\<open>Missing required parameters: eventId and baseUrl\<close> and the world is what it
  was: no dialog shown, no directory or file created, no request made, the configuration
  untouched.
\<close>

theorem missing_parameters_rejected:
  assumes "\<not> truthy eventId \<or> \<not> truthy baseUrl"
  shows "download_event_liveries e eventId baseUrl w
         = (\<lparr>success = False, message = ''Missing required parameters: eventId and baseUrl'',
              targetDirectory = None\<rparr>, w)"
  using assms by (auto simp: download_event_liveries_def download_try_def download_stage_def)

text \<open>
  Witness for C10: an absent \<^verbatim>\<open>eventId\<close>, and an empty \<^verbatim>\<open>baseUrl\<close>, in a world with
  no configuration, where a valid call would have opened the directory dialog.
\<close>

theorem missing_parameters_rejected_witness:
  "\<not> truthy Undefined
   \<and> download_event_liveries env_pick Undefined (JStr ''https://example.org'')
       (world_pick\<lparr>cfg := Absent\<rparr>)
     = (\<lparr>success = False, message = ''Missing required parameters: eventId and baseUrl'',
          targetDirectory = None\<rparr>, world_pick\<lparr>cfg := Absent\<rparr>)
   \<and> \<not> truthy (JStr [])
   \<and> download_event_liveries env_pick (JNum 42) (JStr []) (world_pick\<lparr>cfg := Absent\<rparr>)
     = (\<lparr>success = False, message = ''Missing required parameters: eventId and baseUrl'',
          targetDirectory = None\<rparr>, world_pick\<lparr>cfg := Absent\<rparr>)"
proof -
  have h1: "\<not> truthy Undefined \<or> \<not> truthy (JStr ''https://example.org'')" by simp
  have h2: "\<not> truthy (JNum 42) \<or> \<not> truthy (JStr [])" by simp
  show ?thesis
    using missing_parameters_rejected [OF h1, of env_pick "world_pick\<lparr>cfg := Absent\<rparr>"]
          missing_parameters_rejected [OF h2, of env_pick "world_pick\<lparr>cfg := Absent\<rparr>"]
    by simp
qed

end
